theory Spec2Isabelle
  imports Main
begin

section \<open>The Organization class of business/organization.ts\<close>

text \<open>
  A shallow embedding of the \<^verbatim>\<open>Organization\<close> class: the special-team
  resolver, the name/slug resolver, the listing operations with their caching policy,
  and the operations that talk to the remote API. A JavaScript exception is a value of
  type \<open>thrown\<close> on the left of a sum; a remote collaborator is a function held by the
  \<open>Operations\<close> record; every operation returns, next to its result, the list of the
  collaborator calls it issued, in order.
\<close>

subsection \<open>JavaScript values\<close>

text \<open>
  An optional property of an options object is undefined when omitted, and may hold
  null. Truthiness follows JavaScript: a number is truthy unless it is 0, a string
  unless it is empty.
\<close>

datatype 'a optional = Undefined | Null | Defined 'a

fun truthy_number :: "int optional \<Rightarrow> bool" where
  "truthy_number (Defined n) = (n \<noteq> 0)"
| "truthy_number _ = False"

fun truthy_string :: "string optional \<Rightarrow> bool" where
  "truthy_string (Defined s) = (s \<noteq> [])"
| "truthy_string _ = False"

text \<open>\<^verbatim>\<open>a || b\<close> on an optional number, and on one with the fallback null.\<close>

definition number_or :: "int optional \<Rightarrow> int \<Rightarrow> int" where
  "number_or a b = (case a of Defined n \<Rightarrow> (if n \<noteq> 0 then n else b) | _ \<Rightarrow> b)"

definition number_or_null :: "int optional \<Rightarrow> int optional" where
  "number_or_null a = (if truthy_number a then a else Null)"

text \<open>
  A string is the list of its bytes. \<^verbatim>\<open>String.prototype.toLowerCase\<close> belongs to
  the runtime, and its case mapping covers every cased letter of Unicode; it is not
  defined here. The functions that call it take it as their first argument, named
  \<open>toLowerCase\<close>, and what is proved of them holds for every function in its place.
\<close>

text \<open>
  \<^verbatim>\<open>Number.prototype.toString\<close> on an integer id: its decimal digits, the last
  one printed first in front of what is printed already, with a minus sign when
  negative. (JavaScript prints a number in this plain form below ten to the 21.)
\<close>

definition digit_char :: "nat \<Rightarrow> char" where
  "digit_char d = char_of (of_char CHR ''0'' + d)"

fun decimal :: "nat \<Rightarrow> string \<Rightarrow> string" where
  "decimal n printed =
     (if n < 10 then digit_char n # printed
      else decimal (n div 10) (digit_char (n mod 10) # printed))"

declare decimal.simps [simp del]

definition toString :: "int \<Rightarrow> string" where
  "toString i = (if i < 0 then CHR ''-'' # decimal (nat (- i)) [] else decimal (nat i) [])"

subsection \<open>Settings, teams and thrown values\<close>

text \<open>
  Modelled from the spec: the \<^verbatim>\<open>SpecialTeam\<close> enumeration is declared in
  entities/organizationSettings/organizationSetting, which is not among the sources;
  the spec lists its role tags, and organization.ts uses all six.
\<close>

datatype SpecialTeam = Everyone | GlobalSudo | Sudo | SystemRead | SystemWrite | SystemAdmin

record ISpecialTeam =
  specialTeam :: SpecialTeam
  teamId :: int

text \<open>
  The fields of \<^verbatim>\<open>OrganizationSetting\<close> that the modelled methods read: the
  optional name and id of the organization, the active flag and the list of
  \<^verbatim>\<open>{specialTeam, teamId}\<close> pairs, in configuration order.
\<close>

record OrganizationSetting =
  organizationName :: "string optional"
  organizationId :: "int optional"
  active :: bool
  specialTeams :: "ISpecialTeam list"

text \<open>The raw team record of the remote API, and the \<^verbatim>\<open>Team\<close> wrapper.\<close>

record TeamEntity =
  entity_id :: int
  entity_name :: string
  entity_slug :: string

text \<open>
  \<^verbatim>\<open>team(id, optionalEntity)\<close> wraps the entity when one is given, and otherwise
  the object \<^verbatim>\<open>{id}\<close>: a lazy team, whose name and slug are undefined.
\<close>

datatype Team = LazyTeam int | FullTeam TeamEntity

fun team :: "int \<Rightarrow> TeamEntity option \<Rightarrow> Team" where
  "team i None = LazyTeam i"
| "team i (Some entity) = FullTeam entity"

definition teamFromEntity :: "TeamEntity \<Rightarrow> Team" where
  "teamFromEntity entity = team (entity_id entity) (Some entity)"

fun team_id :: "Team \<Rightarrow> int" where
  "team_id (LazyTeam i) = i"
| "team_id (FullTeam e) = entity_id e"

fun team_name :: "Team \<Rightarrow> string option" where
  "team_name (LazyTeam i) = None"
| "team_name (FullTeam e) = Some (entity_name e)"

fun team_slug :: "Team \<Rightarrow> string option" where
  "team_slug (LazyTeam i) = None"
| "team_slug (FullTeam e) = Some (entity_slug e)"

text \<open>
  \<^verbatim>\<open>IReposError\<close> and \<^verbatim>\<open>IRedirectError\<close>: an \<^verbatim>\<open>Error\<close> with a message
  and the optional properties that organization.ts assigns.
\<close>

record IRedirectError =
  message :: string
  status :: "int option"
  skipLog :: "bool option"
  slug :: "string option"
  redirect_team :: "Team option"

definition new_Error :: "string \<Rightarrow> IRedirectError" where
  "new_Error msg =
     \<lparr>message = msg, status = None, skipLog = None, slug = None, redirect_team = None\<rparr>"

text \<open>
  What a \<^verbatim>\<open>throw\<close> can carry here: an error object, a \<^verbatim>\<open>Team\<close> (JavaScript
  throws any value), the \<^verbatim>\<open>TypeError\<close> of a property read on undefined, and the
  result of \<^verbatim>\<open>wrapError(error, message)\<close>, which keeps the inner error.
\<close>

datatype thrown =
    ErrorObject IRedirectError
  | ThrownTeam Team
  | TypeError
  | WrappedError thrown string

fun thrown_status :: "thrown \<Rightarrow> int option" where
  "thrown_status (ErrorObject e) = status e"
| "thrown_status _ = None"

subsection \<open>The organization and its special teams\<close>

record Organization =
  org_name :: string
  org_baseUrl :: string
  org_settings :: OrganizationSetting
  org_id :: "int option"
  hasDynamicSettings :: bool

text \<open>
  The constructor. \<^verbatim>\<open>asNumber\<close> (utils, not among the sources) is the identity
  on a number, which is what the settings record holds here.
\<close>

definition constructor ::
  "string \<Rightarrow> string \<Rightarrow> OrganizationSetting \<Rightarrow> bool \<Rightarrow> Organization" where
  "constructor operations_baseUrl name settings dynamic =
     (let n = (if truthy_string (organizationName settings)
               then (case organizationName settings of Defined s \<Rightarrow> s | _ \<Rightarrow> name)
               else name)
      in \<lparr>org_name = n,
          org_baseUrl = operations_baseUrl @ n @ ''/'',
          org_settings = settings,
          org_id = (if truthy_number (organizationId settings)
                    then (case organizationId settings of Defined i \<Rightarrow> Some i | _ \<Rightarrow> None)
                    else None),
          hasDynamicSettings = dynamic\<rparr>)"

text \<open>
  The loop of \<^verbatim>\<open>getSpecialTeam\<close>: the id of the first entry with the role, where
  the loop breaks; null when there is none. With \<^verbatim>\<open>throwIfMissing\<close> the method
  throws whether or not an entry was found; the accessors never pass it. The message of
  that error names the organization and the friendly name of the role (the string value
  of the role tag, declared with the enumeration, is left out).
\<close>

fun first_special_team :: "ISpecialTeam list \<Rightarrow> SpecialTeam \<Rightarrow> int option" where
  "first_special_team [] role = None"
| "first_special_team (entry # rest) role =
     (if specialTeam entry = role then Some (teamId entry) else first_special_team rest role)"

definition missing_special_team_message :: "string \<Rightarrow> string \<Rightarrow> string" where
  "missing_special_team_message name friendlyName =
     ''Missing configured organization '' @ name @ '' special team - '' @ friendlyName"

definition getSpecialTeam ::
  "Organization \<Rightarrow> SpecialTeam \<Rightarrow> string \<Rightarrow> bool \<Rightarrow> thrown + int list" where
  "getSpecialTeam org role friendlyName throwIfMissing =
     (let teamId = first_special_team (specialTeams (org_settings org)) role
      in if throwIfMissing
         then Inl (ErrorObject (new_Error (missing_special_team_message (org_name org) friendlyName)))
         else (case teamId of
                 None \<Rightarrow> Inr []
               | Some i \<Rightarrow> (if i \<noteq> 0 then Inr [i] else Inr [])))"

text \<open>
  The single-team accessors: more than one id is an error, one id is a lazy team, none
  is null.
\<close>

definition broadAccessTeams :: "Organization \<Rightarrow> thrown + int list" where
  "broadAccessTeams org = getSpecialTeam org Everyone ''everyone membership'' False"

definition invitationTeam :: "Organization \<Rightarrow> thrown + Team option" where
  "invitationTeam org =
     (case broadAccessTeams org of
        Inl e \<Rightarrow> Inl e
      | Inr teams \<Rightarrow>
          (if length teams > 1
           then Inl (ErrorObject (new_Error ''Multiple invitation teams are not supported.''))
           else (case teams of [i] \<Rightarrow> Inr (Some (team i None)) | _ \<Rightarrow> Inr None)))"

definition systemSudoersTeam :: "Organization \<Rightarrow> thrown + Team option" where
  "systemSudoersTeam org =
     (case getSpecialTeam org GlobalSudo ''system sudoers'' False of
        Inl e \<Rightarrow> Inl e
      | Inr teams \<Rightarrow>
          (if length teams > 1
           then Inl (ErrorObject (new_Error ''Multiple system sudoer teams are not supported.''))
           else (case teams of [i] \<Rightarrow> Inr (Some (team i None)) | _ \<Rightarrow> Inr None)))"

definition sudoersTeam :: "Organization \<Rightarrow> thrown + Team option" where
  "sudoersTeam org =
     (case getSpecialTeam org Sudo ''organization sudoers'' False of
        Inl e \<Rightarrow> Inl e
      | Inr teams \<Rightarrow>
          (if length teams > 1
           then Inl (ErrorObject (new_Error ''Multiple sudoer teams are not supported.''))
           else (case teams of [i] \<Rightarrow> Inr (Some (team i None)) | _ \<Rightarrow> Inr None)))"

record SpecialRepositoryPermissionTeams =
  teams_read :: "int list"
  teams_write :: "int list"
  teams_admin :: "int list"

definition specialRepositoryPermissionTeams ::
  "Organization \<Rightarrow> thrown + SpecialRepositoryPermissionTeams" where
  "specialRepositoryPermissionTeams org =
     (case getSpecialTeam org SystemRead ''read everything'' False of
        Inl e \<Rightarrow> Inl e
      | Inr r \<Rightarrow>
     (case getSpecialTeam org SystemWrite ''write everything'' False of
        Inl e \<Rightarrow> Inl e
      | Inr w \<Rightarrow>
     (case getSpecialTeam org SystemAdmin ''administer everything'' False of
        Inl e \<Rightarrow> Inl e
      | Inr a \<Rightarrow> Inr \<lparr>teams_read = r, teams_write = w, teams_admin = a\<rparr>)))"

subsection \<open>Collaborators\<close>

text \<open>
  Modelled from the spec: the \<^verbatim>\<open>AppPurpose\<close> enumeration is declared in the github
  module, which is not among the sources; its three values are the ones that
  organization.ts passes to \<^verbatim>\<open>authorize\<close>.
\<close>

datatype AppPurpose = Data | CustomerFacing | Operations

text \<open>
  The first argument of a remote call: the supplier that \<^verbatim>\<open>authorize(purpose)\<close>
  binds to a purpose, or a literal header string such as \<^verbatim>\<open>token ...\<close>.
\<close>

datatype credential = Authorize AppPurpose | HeaderString string

definition authorize :: "AppPurpose \<Rightarrow> credential" where
  "authorize purpose = Authorize purpose"

datatype jsvalue = JsString string | JsNumber int | JsBool bool

type_synonym parameters = "(string \<times> jsvalue) list"

text \<open>\<^verbatim>\<open>delete o.k\<close> and \<^verbatim>\<open>Object.assign(target, source)\<close> on small objects.\<close>

definition delete_property :: "string \<Rightarrow> parameters \<Rightarrow> parameters" where
  "delete_property k ps = filter (\<lambda>p. fst p \<noteq> k) ps"

fun set_property :: "string \<Rightarrow> jsvalue \<Rightarrow> parameters \<Rightarrow> parameters" where
  "set_property k v [] = [(k, v)]"
| "set_property k v (p # ps) = (if fst p = k then (k, v) # ps else p # set_property k v ps)"

fun object_assign :: "parameters \<Rightarrow> parameters \<Rightarrow> parameters" where
  "object_assign target [] = target"
| "object_assign target (p # ps) = object_assign (set_property (fst p) (snd p) target) ps"

record IPagedCacheOptions =
  maxAgeSeconds :: "int optional"
  backgroundRefresh :: "bool optional"
  pageRequestDelay :: "int optional"

record IGetOrganizationMembersOptions = IPagedCacheOptions +
  filter_option :: "string optional"
  role_option :: "string optional"

text \<open>The raw records of repositories, members, accounts and organization details.\<close>

record Entity =
  ent_id :: "int optional"
  ent_name :: "string optional"
  ent_login :: "string optional"

datatype Repository = Repository Entity

datatype OrganizationMember = OrganizationMember Entity

record IAccountBasics =
  account_id :: int
  account_login :: string

record TeamMembershipResponse =
  membership_role :: "string optional"

record QueryCache =
  supportsOrganizationMembership :: bool
  removeOrganizationMember :: "string \<Rightarrow> string \<Rightarrow> thrown + unit"

text \<open>
  \<^verbatim>\<open>this._operations\<close> and what is reached through it: the defaults, the debug
  flag of the configuration, the remote client \<^verbatim>\<open>github\<close> with its collections, the
  optional query cache and the account lookup. \<^verbatim>\<open>Team.getMembershipEfficiently\<close>
  (team.ts) and \<^verbatim>\<open>StripGitHubEntity\<close> (lib/github/restApi) are not among the
  sources either and are held here as well. Each is a function from the arguments of
  the call to what the call returns or throws.
\<close>

record OperationsContext =
  baseUrl :: string
  defaultPageSize :: int
  orgReposStaleSeconds :: int
  orgMembersStaleSeconds :: int
  orgTeamsStaleSeconds :: int
  orgTeamsSlugLookupStaleSeconds :: int
  debug_orgSudoOff :: bool
  github_post :: "credential \<Rightarrow> string \<Rightarrow> parameters \<Rightarrow> thrown + Entity option"
  github_call :: "credential \<Rightarrow> string \<Rightarrow> parameters \<Rightarrow> thrown + Entity option"
  collections_getOrgRepos ::
    "credential \<Rightarrow> parameters \<Rightarrow> IPagedCacheOptions \<Rightarrow> thrown + Entity list"
  collections_getOrgMembers ::
    "credential \<Rightarrow> parameters \<Rightarrow> IPagedCacheOptions \<Rightarrow> thrown + Entity list"
  collections_getOrgTeams ::
    "credential \<Rightarrow> parameters \<Rightarrow> IPagedCacheOptions \<Rightarrow> thrown + TeamEntity list"
  queryCache :: "QueryCache option"
  getAccountByUsername :: "string \<Rightarrow> thrown + IAccountBasics"
  getMembershipEfficiently :: "Team \<Rightarrow> string \<Rightarrow> thrown + TeamMembershipResponse option"
  StripGitHubEntity :: "Entity \<Rightarrow> thrown + Entity"

text \<open>The collaborator calls an operation issues, recorded in order.\<close>

datatype call =
    Post credential string parameters
  | Call credential string parameters
  | GetOrgRepos credential parameters IPagedCacheOptions
  | GetOrgMembers credential parameters IPagedCacheOptions
  | GetOrgTeams credential parameters IPagedCacheOptions
  | GetAccountByUsername string
  | RemoveOrganizationMember string string
  | GetMembershipEfficiently Team string

text \<open>The credential of a call to the remote API; the other collaborators take none.\<close>

fun call_credential :: "call \<Rightarrow> credential option" where
  "call_credential (Post c api ps) = Some c"
| "call_credential (Call c api ps) = Some c"
| "call_credential (GetOrgRepos c ps k) = Some c"
| "call_credential (GetOrgMembers c ps k) = Some c"
| "call_credential (GetOrgTeams c ps k) = Some c"
| "call_credential _ = None"

text \<open>
  \<^verbatim>\<open>error.message\<close> of a thrown value; a value that is no \<^verbatim>\<open>Error\<close> has none, and
  a template string prints that as \<^verbatim>\<open>undefined\<close>.
\<close>

fun thrown_message :: "thrown \<Rightarrow> string" where
  "thrown_message (ErrorObject e) = message e"
| "thrown_message (WrappedError inner msg) = msg"
| "thrown_message TypeError = ''Cannot read property of undefined''"
| "thrown_message (ThrownTeam t) = ''undefined''"

definition wrapError :: "thrown \<Rightarrow> string \<Rightarrow> thrown" where
  "wrapError error msg = WrappedError error msg"

subsection \<open>Listing operations and their caching policy\<close>

type_synonym 'a outcome = "(thrown + 'a) \<times> call list"

definition empty_options :: IPagedCacheOptions where
  "empty_options =
     \<lparr>maxAgeSeconds = Undefined, backgroundRefresh = Undefined, pageRequestDelay = Undefined\<rparr>"

definition empty_members_options :: IGetOrganizationMembersOptions where
  "empty_members_options =
     \<lparr>maxAgeSeconds = Undefined, backgroundRefresh = Undefined, pageRequestDelay = Undefined,
      filter_option = Undefined, role_option = Undefined\<rparr>"

text \<open>\<^verbatim>\<open>options = options || {}\<close>\<close>

definition options_or_empty :: "IPagedCacheOptions option \<Rightarrow> IPagedCacheOptions" where
  "options_or_empty options = (case options of None \<Rightarrow> empty_options | Some opts \<Rightarrow> opts)"

definition members_options_or_empty ::
  "IGetOrganizationMembersOptions option \<Rightarrow> IGetOrganizationMembersOptions" where
  "members_options_or_empty options =
     (case options of None \<Rightarrow> empty_members_options | Some opts \<Rightarrow> opts)"

text \<open>\<^verbatim>\<open>common.createInstances\<close> (not among the sources) wraps each raw record.\<close>

definition createInstances :: "('e \<Rightarrow> 'w) \<Rightarrow> 'e list \<Rightarrow> 'w list" where
  "createInstances createMethod entities = map createMethod entities"

definition repositoryFromEntity :: "Entity \<Rightarrow> Repository" where
  "repositoryFromEntity entity = Repository entity"

definition memberFromEntity :: "Entity \<Rightarrow> OrganizationMember" where
  "memberFromEntity entity = OrganizationMember entity"

definition getRepositories_parameters :: "OperationsContext \<Rightarrow> Organization \<Rightarrow> parameters" where
  "getRepositories_parameters ops org =
     [(''org'', JsString (org_name org)), (''type'', JsString ''all''),
      (''per_page'', JsNumber (defaultPageSize ops))]"

definition getRepositories_caching ::
  "OperationsContext \<Rightarrow> IPagedCacheOptions \<Rightarrow> IPagedCacheOptions" where
  "getRepositories_caching ops options =
     (let caching =
        \<lparr>maxAgeSeconds = Defined (number_or (maxAgeSeconds options) (orgReposStaleSeconds ops)),
         backgroundRefresh = Defined True,
         pageRequestDelay = number_or_null (pageRequestDelay options)\<rparr>
      in if backgroundRefresh options = Defined False
         then caching\<lparr>backgroundRefresh := Defined False\<rparr>
         else caching)"

definition getRepositories ::
  "OperationsContext \<Rightarrow> Organization \<Rightarrow> IPagedCacheOptions option \<Rightarrow> Repository list outcome" where
  "getRepositories ops org options =
     (let opts = options_or_empty options;
          parameters = getRepositories_parameters ops org;
          caching = getRepositories_caching ops opts
      in (case collections_getOrgRepos ops (authorize Data) parameters caching of
            Inl e \<Rightarrow> Inl e
          | Inr repoEntities \<Rightarrow> Inr (createInstances repositoryFromEntity repoEntities),
          [GetOrgRepos (authorize Data) parameters caching]))"

definition getMembers_parameters ::
  "OperationsContext \<Rightarrow> Organization \<Rightarrow> IGetOrganizationMembersOptions \<Rightarrow> parameters" where
  "getMembers_parameters ops org options =
     [(''org'', JsString (org_name org)), (''per_page'', JsNumber (defaultPageSize ops))]
     @ (case filter_option options of
          Defined f \<Rightarrow> (if f \<noteq> [] then [(''filter'', JsString f)] else [])
        | _ \<Rightarrow> [])
     @ (case role_option options of
          Defined r \<Rightarrow> (if r \<noteq> [] then [(''role'', JsString r)] else [])
        | _ \<Rightarrow> [])"

definition getMembers_caching ::
  "OperationsContext \<Rightarrow> IGetOrganizationMembersOptions \<Rightarrow> IPagedCacheOptions" where
  "getMembers_caching ops options =
     (let caching =
        \<lparr>maxAgeSeconds = Defined (number_or (maxAgeSeconds options) (orgMembersStaleSeconds ops)),
         backgroundRefresh = Defined True,
         pageRequestDelay = pageRequestDelay options\<rparr>
      in if backgroundRefresh options = Defined False
         then caching\<lparr>backgroundRefresh := Defined False\<rparr>
         else caching)"

definition getMembers ::
  "OperationsContext \<Rightarrow> Organization \<Rightarrow> IGetOrganizationMembersOptions option
     \<Rightarrow> OrganizationMember list outcome" where
  "getMembers ops org options =
     (let opts = members_options_or_empty options;
          getAuthorizationHeader = authorize Data;
          parameters = getMembers_parameters ops org opts;
          caching = getMembers_caching ops opts
      in (case collections_getOrgMembers ops getAuthorizationHeader parameters caching of
            Inl e \<Rightarrow> Inl e
          | Inr memberEntities \<Rightarrow> Inr (createInstances memberFromEntity memberEntities),
          [GetOrgMembers getAuthorizationHeader parameters caching]))"

definition getTeams_parameters :: "OperationsContext \<Rightarrow> Organization \<Rightarrow> parameters" where
  "getTeams_parameters ops org =
     [(''org'', JsString (org_name org)), (''per_page'', JsNumber (defaultPageSize ops))]"

text \<open>
  In \<^verbatim>\<open>getTeams\<close> the policy starts with \<^verbatim>\<open>backgroundRefresh: true\<close> and the
  next statement assigns \<^verbatim>\<open>options.backgroundRefresh\<close> to it, whatever it holds.
\<close>

definition getTeams_caching ::
  "OperationsContext \<Rightarrow> IPagedCacheOptions \<Rightarrow> IPagedCacheOptions" where
  "getTeams_caching ops options =
     (let caching =
        \<lparr>maxAgeSeconds = Defined (number_or (maxAgeSeconds options) (orgTeamsStaleSeconds ops)),
         backgroundRefresh = Defined True,
         pageRequestDelay = number_or_null (pageRequestDelay options)\<rparr>
      in caching\<lparr>backgroundRefresh := backgroundRefresh options\<rparr>)"

definition getTeams ::
  "OperationsContext \<Rightarrow> Organization \<Rightarrow> IPagedCacheOptions option \<Rightarrow> Team list outcome" where
  "getTeams ops org options =
     (let opts = options_or_empty options;
          parameters = getTeams_parameters ops org;
          caching = getTeams_caching ops opts;
          getAuthorizationHeader = authorize Data
      in (case collections_getOrgTeams ops getAuthorizationHeader parameters caching of
            Inl e \<Rightarrow> Inl e
          | Inr teamEntities \<Rightarrow> Inr (createInstances teamFromEntity teamEntities),
          [GetOrgTeams getAuthorizationHeader parameters caching]))"

subsection \<open>Resolving a team by name, slug or id\<close>

definition redirect_error :: "string \<Rightarrow> Team \<Rightarrow> IRedirectError" where
  "redirect_error s t =
     (new_Error (''The team is also available by slug: '' @ s @ ''.''))
       \<lparr>status := Some 301, slug := Some s, redirect_team := Some t\<rparr>"

definition teamNotFoundError :: IRedirectError where
  "teamNotFoundError =
     (new_Error ''No team was found within the organization matching the provided name'')
       \<lparr>status := Some 404, skipLog := Some True\<rparr>"

text \<open>
  What follows the loop. With a candidate found by id, the source builds the redirect
  error and then executes \<^verbatim>\<open>throw alternativeCandidateById\<close>: the thrown value is the
  team, and the error object that was built is dropped.
\<close>

definition after_scan :: "Team option \<Rightarrow> thrown + Team" where
  "after_scan alternativeCandidateById =
     (case alternativeCandidateById of
        Some candidate \<Rightarrow>
          (case team_slug candidate of
             None \<Rightarrow> Inl (ThrownTeam candidate)
           | Some s \<Rightarrow> (let redirectError = redirect_error s candidate
                        in Inl (ThrownTeam candidate)))
      | None \<Rightarrow> Inl (ErrorObject teamNotFoundError))"

text \<open>
  The loop over the teams, with the candidate found by id so far. Reading the name or
  the slug of a team that has none is a \<^verbatim>\<open>TypeError\<close>.
\<close>

fun scan_teams ::
  "(string \<Rightarrow> string) \<Rightarrow> string \<Rightarrow> Team list \<Rightarrow> Team option \<Rightarrow> thrown + Team" where
  "scan_teams toLowerCase expected [] alternativeCandidateById = after_scan alternativeCandidateById"
| "scan_teams toLowerCase expected (t # rest) alternativeCandidateById =
     (case team_name t of
        None \<Rightarrow> Inl TypeError
      | Some n \<Rightarrow>
     (case team_slug t of
        None \<Rightarrow> Inl TypeError
      | Some s \<Rightarrow>
          (let name = toLowerCase n; slug = toLowerCase s
           in if expected = name \<and> name \<noteq> slug
              then Inl (ErrorObject (redirect_error slug t))
              else (let candidate = (if toString (team_id t) = expected then Some t
                                     else alternativeCandidateById)
                    in if expected = slug then Inr t
                       else scan_teams toLowerCase expected rest candidate))))"

definition slug_lookup_options ::
  "OperationsContext \<Rightarrow> IPagedCacheOptions option \<Rightarrow> IPagedCacheOptions" where
  "slug_lookup_options ops options =
     (let opts = options_or_empty options
      in if \<not> truthy_number (maxAgeSeconds opts)
         then opts\<lparr>maxAgeSeconds := Defined (orgTeamsSlugLookupStaleSeconds ops)\<rparr>
         else opts)"

definition getTeamFromName ::
  "(string \<Rightarrow> string) \<Rightarrow> OperationsContext \<Rightarrow> Organization \<Rightarrow> string \<Rightarrow> IPagedCacheOptions option \<Rightarrow> Team outcome" where
  "getTeamFromName toLowerCase ops org nameOrSlug options =
     (let opts = slug_lookup_options ops options;
          expected = toLowerCase nameOrSlug
      in (case getTeams ops org (Some opts) of
            (Inl e, calls) \<Rightarrow> (Inl e, calls)
          | (Inr teams, calls) \<Rightarrow> (scan_teams toLowerCase expected teams None, calls)))"

subsection \<open>Operations on the remote organization\<close>

text \<open>
  \<^verbatim>\<open>getDetails\<close> is the one method that assigns a field of the object: it stores
  the id of the entity it received, when that id is truthy. It returns the object as
  it is after the call.
\<close>

definition getDetails ::
  "OperationsContext \<Rightarrow> Organization \<Rightarrow> Entity option outcome \<times> Organization" where
  "getDetails ops org =
     (let parameters = [(''org'', JsString (org_name org))];
          calls = [Call (authorize Data) ''orgs.get'' parameters]
      in (case github_call ops (authorize Data) ''orgs.get'' parameters of
            Inr entity \<Rightarrow>
              ((Inr entity, calls),
               (case entity of
                  Some e \<Rightarrow> (case ent_id e of
                               Defined i \<Rightarrow> (if i \<noteq> 0 then org\<lparr>org_id := Some i\<rparr> else org)
                             | _ \<Rightarrow> org)
                | None \<Rightarrow> org))
          | Inl error \<Rightarrow>
              ((Inl (wrapError error
                       (''Could not get details about the '' @ org_name org
                        @ '' organization: '' @ thrown_message error)), calls),
               org)))"

record ICreateRepositoryResult =
  result_response :: Entity
  result_repository :: Repository

text \<open>
  \<^verbatim>\<open>createRepository\<close>. The body of the \<^verbatim>\<open>try\<close> is the post, the wrapping of
  the details (a \<^verbatim>\<open>TypeError\<close> when there are none) and the stripping of the
  response, whose own failure is caught and leaves the details as the response. The
  \<^verbatim>\<open>errors\<close> array of a remote error, which the source prepends to the message, is
  not part of \<open>thrown\<close>.
\<close>

definition createRepository_try ::
  "OperationsContext \<Rightarrow> parameters \<Rightarrow> thrown + ICreateRepositoryResult" where
  "createRepository_try ops parameters =
     (case github_post ops (authorize Operations) ''repos.createInOrg'' parameters of
        Inl error \<Rightarrow> Inl error
      | Inr None \<Rightarrow> Inl TypeError
      | Inr (Some details) \<Rightarrow>
          (let newRepository = repositoryFromEntity details;
               response = (case StripGitHubEntity ops details of
                             Inl parseError \<Rightarrow> details
                           | Inr stripped \<Rightarrow> stripped)
           in Inr \<lparr>result_response = response, result_repository = newRepository\<rparr>))"

definition createRepository ::
  "OperationsContext \<Rightarrow> Organization \<Rightarrow> string \<Rightarrow> parameters \<Rightarrow> ICreateRepositoryResult outcome" where
  "createRepository ops org repositoryName options =
     (let orgName = org_name org;
          parameters = object_assign
                         [(''org'', JsString orgName), (''name'', JsString repositoryName)]
                         (delete_property ''org'' (delete_property ''name'' options))
      in (case createRepository_try ops parameters of
            Inr result \<Rightarrow> Inr result
          | Inl error \<Rightarrow>
              Inl (wrapError error
                     (''Could not create the repository '' @ orgName @ ''/'' @ repositoryName)),
          [Post (authorize Operations) ''repos.createInOrg'' parameters]))"

text \<open>
  \<^verbatim>\<open>acceptOrganizationInvitation\<close> passes no supplier: its first argument is the
  string \<^verbatim>\<open>`token ${userToken}`\<close>.
\<close>

definition acceptOrganizationInvitation ::
  "OperationsContext \<Rightarrow> Organization \<Rightarrow> string \<Rightarrow> Entity option outcome" where
  "acceptOrganizationInvitation ops org userToken =
     (let parameters = [(''org'', JsString (org_name org)), (''state'', JsString ''active'')];
          header = HeaderString (''token '' @ userToken)
      in (case github_post ops header ''orgs.updateMembership'' parameters of
            Inr response \<Rightarrow> Inr response
          | Inl error \<Rightarrow>
              Inl (wrapError error
                     (''Could not accept your invitation for the '' @ org_name org
                      @ '' organization on GitHub'')),
          [Post header ''orgs.updateMembership'' parameters]))"

record IAddOrganizationMembershipOptions =
  membership_role_option :: "string optional"

definition addMembership ::
  "OperationsContext \<Rightarrow> Organization \<Rightarrow> string \<Rightarrow> IAddOrganizationMembershipOptions option
     \<Rightarrow> Entity option outcome" where
  "addMembership ops org username options =
     (let role = (case options of
                    Some opts \<Rightarrow> (case membership_role_option opts of
                                    Defined r \<Rightarrow> (if r \<noteq> [] then r else ''member'')
                                  | _ \<Rightarrow> ''member'')
                  | None \<Rightarrow> ''member'');
          parameters = [(''org'', JsString (org_name org)), (''username'', JsString username),
                        (''role'', JsString role)]
      in (github_post ops (authorize Operations) ''orgs.addOrUpdateMembership'' parameters,
          [Post (authorize Operations) ''orgs.addOrUpdateMembership'' parameters]))"

definition checkPublicMembership ::
  "OperationsContext \<Rightarrow> Organization \<Rightarrow> string \<Rightarrow> bool outcome" where
  "checkPublicMembership ops org username =
     (let parameters = [(''username'', JsString username), (''org'', JsString (org_name org)),
                        (''allowEmptyResponse'', JsBool True)]
      in (case github_post ops (authorize CustomerFacing) ''orgs.checkPublicMembership'' parameters of
            Inr ok \<Rightarrow> Inr True
          | Inl error \<Rightarrow>
              (if thrown_status error = Some 404 then Inr False
               else Inl (wrapError error
                           (''Trouble retrieving the public membership status for '' @ username
                            @ '' in the '' @ org_name org @ '' organization: ''
                            @ thrown_message error))),
          [Post (authorize CustomerFacing) ''orgs.checkPublicMembership'' parameters]))"

subsection \<open>Removing a member, and the secondary cache\<close>

text \<open>
  The body of the inner \<^verbatim>\<open>try\<close> of \<^verbatim>\<open>removeMember\<close>: the member id is looked up
  when none was passed, and the query cache is told of the removal. Reading
  \<^verbatim>\<open>this.id.toString()\<close> on an organization without id is a \<^verbatim>\<open>TypeError\<close>.
\<close>

definition removeMember_cache_try ::
  "OperationsContext \<Rightarrow> Organization \<Rightarrow> QueryCache \<Rightarrow> string \<Rightarrow> string optional \<Rightarrow> unit outcome" where
  "removeMember_cache_try ops org cache login optionalId =
     (let lookup =
            (if \<not> truthy_string optionalId
             then (case getAccountByUsername ops login of
                     Inl e \<Rightarrow> (Inl e, [GetAccountByUsername login])
                   | Inr account \<Rightarrow> (Inr (toString (account_id account)), [GetAccountByUsername login]))
             else (case optionalId of Defined s \<Rightarrow> (Inr s, []) | _ \<Rightarrow> (Inr [], [])))
      in (case lookup of
            (Inl e, calls) \<Rightarrow> (Inl e, calls)
          | (Inr memberId, calls) \<Rightarrow>
              (case org_id org of
                 None \<Rightarrow> (Inl TypeError, calls)
               | Some i \<Rightarrow>
                   (removeOrganizationMember cache (toString i) memberId,
                    calls @ [RemoveOrganizationMember (toString i) memberId]))))"

text \<open>\<^verbatim>\<open>try { ... } catch (ignored) {}\<close>: whatever the body throws, the block completes.\<close>

definition catch_ignored :: "unit outcome \<Rightarrow> unit outcome" where
  "catch_ignored body = (case fst body of Inl ignored \<Rightarrow> (Inr (), snd body) | Inr u \<Rightarrow> (Inr u, snd body))"

text \<open>The body of the outer \<^verbatim>\<open>try\<close>: the removal itself, then the cache.\<close>

definition removeMember_try ::
  "OperationsContext \<Rightarrow> Organization \<Rightarrow> string \<Rightarrow> string optional \<Rightarrow> unit outcome" where
  "removeMember_try ops org login optionalId =
     (let parameters = [(''org'', JsString (org_name org)), (''username'', JsString login)];
          primary = Post (authorize Operations) ''orgs.removeMembership'' parameters
      in (case github_post ops (authorize Operations) ''orgs.removeMembership'' parameters of
            Inl error \<Rightarrow> (Inl error, [primary])
          | Inr ok \<Rightarrow>
              (case queryCache ops of
                 None \<Rightarrow> (Inr (), [primary])
               | Some cache \<Rightarrow>
                   (if supportsOrganizationMembership cache
                    then (let synchronized =
                                catch_ignored (removeMember_cache_try ops org cache login optionalId)
                          in (fst synchronized, primary # snd synchronized))
                    else (Inr (), [primary])))))"

definition removeMember ::
  "OperationsContext \<Rightarrow> Organization \<Rightarrow> string \<Rightarrow> string optional \<Rightarrow> unit outcome" where
  "removeMember ops org login optionalId =
     (case removeMember_try ops org login optionalId of
        (Inl error, calls) \<Rightarrow>
          (Inl (wrapError error (''Could not remove the organization member '' @ login)), calls)
      | (Inr u, calls) \<Rightarrow> (Inr u, calls))"

subsection \<open>Sudo determination\<close>

text \<open>
  Modelled from the spec: the \<^verbatim>\<open>GitHubTeamRole\<close> enumeration is declared in team.ts,
  which is not among the sources; the recognised membership roles are Member and
  Maintainer, the role strings of the remote API.
\<close>

definition GitHubTeamRole_Member :: string where
  "GitHubTeamRole_Member = ''member''"

definition GitHubTeamRole_Maintainer :: string where
  "GitHubTeamRole_Maintainer = ''maintainer''"

definition isSudoer :: "OperationsContext \<Rightarrow> Organization \<Rightarrow> string \<Rightarrow> bool outcome" where
  "isSudoer ops org username =
     (case sudoersTeam org of
        Inl e \<Rightarrow> (Inl e, [])
      | Inr None \<Rightarrow> (Inr False, [])
      | Inr (Some sudoerTeam) \<Rightarrow>
          (if debug_orgSudoOff ops then (Inr False, [])
           else (let calls = [GetMembershipEfficiently sudoerTeam username]
                 in (case getMembershipEfficiently ops sudoerTeam username of
                       Inl getMembershipError \<Rightarrow>
                         (if thrown_status getMembershipError = Some 404 then (Inr False, calls)
                          else (Inl getMembershipError, calls))
                     | Inr response \<Rightarrow>
                         (let membership =
                                (case response of
                                   Some r \<Rightarrow> (if truthy_string (membership_role r)
                                              then membership_role r else Null)
                                 | None \<Rightarrow> Null);
                              isKnownMembership =
                                (membership = Defined GitHubTeamRole_Member
                                 \<or> membership = Defined GitHubTeamRole_Maintainer)
                          in if truthy_string membership \<and> isKnownMembership
                             then (Inr isKnownMembership, calls)
                             else if truthy_string membership
                             then (Inl (ErrorObject (new_Error
                                     (''Cannot determine sudo status for '' @ username
                                      @ '', unrecognized membership type: ''
                                      @ (case membership of Defined m \<Rightarrow> m | _ \<Rightarrow> [])))), calls)
                             else (Inr False, calls))))))"

subsection \<open>Requests against one organization object\<close>

text \<open>
  The modelled methods as requests, and what a request does to the object. The source
  assigns \<^verbatim>\<open>this._name\<close> in the constructor only and \<^verbatim>\<open>this.id\<close> in the
  constructor and in \<^verbatim>\<open>getDetails\<close>; every other method leaves the object as it is.
  A run is a sequence of requests, each against the remote as it is at that moment.
\<close>

datatype request =
    GetDetails
  | GetRepositories "IPagedCacheOptions option"
  | GetMembers "IGetOrganizationMembersOptions option"
  | GetTeams "IPagedCacheOptions option"
  | GetTeamFromName string "IPagedCacheOptions option"
  | IsSudoer string
  | CreateRepository string parameters
  | AcceptOrganizationInvitation string
  | AddMembership string "IAddOrganizationMembershipOptions option"
  | CheckPublicMembership string
  | RemoveMember string "string optional"

fun perform ::
  "(string \<Rightarrow> string) \<Rightarrow> OperationsContext \<Rightarrow> Organization \<Rightarrow> request \<Rightarrow> call list \<times> Organization" where
  "perform toLowerCase ops org GetDetails = (snd (fst (getDetails ops org)), snd (getDetails ops org))"
| "perform toLowerCase ops org (GetRepositories options) = (snd (getRepositories ops org options), org)"
| "perform toLowerCase ops org (GetMembers options) = (snd (getMembers ops org options), org)"
| "perform toLowerCase ops org (GetTeams options) = (snd (getTeams ops org options), org)"
| "perform toLowerCase ops org (GetTeamFromName nameOrSlug options) =
     (snd (getTeamFromName toLowerCase ops org nameOrSlug options), org)"
| "perform toLowerCase ops org (IsSudoer username) = (snd (isSudoer ops org username), org)"
| "perform toLowerCase ops org (CreateRepository repositoryName options) =
     (snd (createRepository ops org repositoryName options), org)"
| "perform toLowerCase ops org (AcceptOrganizationInvitation userToken) =
     (snd (acceptOrganizationInvitation ops org userToken), org)"
| "perform toLowerCase ops org (AddMembership username options) =
     (snd (addMembership ops org username options), org)"
| "perform toLowerCase ops org (CheckPublicMembership username) =
     (snd (checkPublicMembership ops org username), org)"
| "perform toLowerCase ops org (RemoveMember login optionalId) =
     (snd (removeMember ops org login optionalId), org)"

fun run ::
  "(string \<Rightarrow> string) \<Rightarrow> Organization \<Rightarrow> (OperationsContext \<times> request) list \<Rightarrow> Organization" where
  "run toLowerCase org [] = org"
| "run toLowerCase org (step # steps) =
     run toLowerCase (snd (perform toLowerCase (fst step) org (snd step))) steps"

text \<open>The credentials of the remote calls in a list of calls, and the caching policies.\<close>

definition credentials_used :: "call list \<Rightarrow> credential list" where
  "credentials_used calls = List.map_filter call_credential calls"

fun call_caching :: "call \<Rightarrow> IPagedCacheOptions option" where
  "call_caching (GetOrgRepos c ps k) = Some k"
| "call_caching (GetOrgMembers c ps k) = Some k"
| "call_caching (GetOrgTeams c ps k) = Some k"
| "call_caching _ = None"

definition policies_handed :: "call list \<Rightarrow> IPagedCacheOptions list" where
  "policies_handed calls = List.map_filter call_caching calls"

subsection \<open>A sample organization and remote\<close>

text \<open>
  An organization named contoso with the given special teams and configured id, and a
  remote that serves the given team list and organization details, accepts every post,
  knows no account and reports no team membership.
\<close>

text \<open>
  The names, slugs and inputs of the samples are strings of ASCII characters. On such a
  string the lowering of the runtime moves the letters A to Z, the bytes 65 to 90, up
  by 32 and leaves every other character as it is; \<open>ascii_toLowerCase\<close> is that
  function, and it is applied to ASCII strings only.
\<close>

definition ascii_lower_char :: "char \<Rightarrow> char" where
  "ascii_lower_char c =
     (let n = (of_char c :: nat) in if 65 \<le> n \<and> n \<le> 90 then char_of (n + 32) else c)"

definition ascii_toLowerCase :: "string \<Rightarrow> string" where
  "ascii_toLowerCase s = map ascii_lower_char s"

definition sample_settings :: "ISpecialTeam list \<Rightarrow> int optional \<Rightarrow> OrganizationSetting" where
  "sample_settings special configuredId =
     \<lparr>organizationName = Undefined, organizationId = configuredId, active = True,
      specialTeams = special\<rparr>"

definition sample_organization :: "ISpecialTeam list \<Rightarrow> int optional \<Rightarrow> Organization" where
  "sample_organization special configuredId =
     constructor ''https://github.com/'' ''contoso'' (sample_settings special configuredId) False"

definition sample_operations ::
  "TeamEntity list \<Rightarrow> Entity option \<Rightarrow> QueryCache option \<Rightarrow> OperationsContext" where
  "sample_operations teams details cache =
     \<lparr>baseUrl = ''https://github.com/'',
      defaultPageSize = 100,
      orgReposStaleSeconds = 600,
      orgMembersStaleSeconds = 300,
      orgTeamsStaleSeconds = 300,
      orgTeamsSlugLookupStaleSeconds = 30,
      debug_orgSudoOff = False,
      github_post = (\<lambda>c api ps. Inr None),
      github_call = (\<lambda>c api ps. Inr details),
      collections_getOrgRepos = (\<lambda>c ps k. Inr []),
      collections_getOrgMembers = (\<lambda>c ps k. Inr []),
      collections_getOrgTeams = (\<lambda>c ps k. Inr teams),
      queryCache = cache,
      getAccountByUsername = (\<lambda>login. Inl (ErrorObject (new_Error ''no such account''))),
      getMembershipEfficiently = (\<lambda>t username. Inr None),
      StripGitHubEntity = (\<lambda>e. Inr e)\<rparr>"

definition failing_cache :: QueryCache where
  "failing_cache =
     \<lparr>supportsOrganizationMembership = True,
      removeOrganizationMember = (\<lambda>orgId memberId. Inl (ErrorObject (new_Error ''cache unavailable'')))\<rparr>"

section \<open>The special-team resolver\<close>

text \<open>
  The loop of \<^verbatim>\<open>getSpecialTeam\<close> stops at the first entry of the role, so the list
  it returns never has more than one element.
\<close>

lemma first_special_team_none:
  "first_special_team entries role = None \<longleftrightarrow> (\<forall>entry \<in> set entries. specialTeam entry \<noteq> role)"
  by (induction entries) auto

lemma first_special_team_single:
  "filter (\<lambda>entry. specialTeam entry = role) entries = [e]
   \<Longrightarrow> first_special_team entries role = Some (teamId e)"
proof (induction entries)
  case Nil
  then show ?case by simp
next
  case (Cons a entries)
  then show ?case by (auto split: if_splits)
qed

lemma getSpecialTeam_returns:
  "\<exists>ids. getSpecialTeam org role friendlyName False = Inr ids"
  by (simp add: getSpecialTeam_def split: option.splits)

lemma getSpecialTeam_at_most_one:
  "getSpecialTeam org role friendlyName False = Inr ids \<Longrightarrow> length ids \<le> 1"
  by (auto simp: getSpecialTeam_def split: option.splits if_splits)

text \<open>No role configured: the empty list. One entry of the role, with a truthy id: that id.\<close>

lemma getSpecialTeam_none_configured:
  "\<forall>entry \<in> set (specialTeams (org_settings org)). specialTeam entry \<noteq> role
   \<Longrightarrow> getSpecialTeam org role friendlyName False = Inr []"
  by (simp add: getSpecialTeam_def first_special_team_none [THEN iffD2])

lemma getSpecialTeam_one_configured:
  "filter (\<lambda>entry. specialTeam entry = role) (specialTeams (org_settings org)) = [e]
   \<Longrightarrow> teamId e \<noteq> 0
   \<Longrightarrow> getSpecialTeam org role friendlyName False = Inr [teamId e]"
  by (simp add: getSpecialTeam_def first_special_team_single)

text \<open>
  So the check for several sudoer teams in \<^verbatim>\<open>sudoersTeam\<close> never fires: the accessor
  throws for no settings at all.
\<close>

lemma sudoersTeam_never_throws: "sudoersTeam org \<noteq> Inl e"
proof -
  obtain ids where ids: "getSpecialTeam org Sudo ''organization sudoers'' False = Inr ids"
    using getSpecialTeam_returns by blast
  then have "length ids \<le> 1" by (rule getSpecialTeam_at_most_one)
  with ids show ?thesis
    by (cases ids) (auto simp: sudoersTeam_def split: list.splits)
qed

text \<open>
  C1. With exactly one Sudo entry the resolver returns that id, with none the empty
  list, and with two or more the accessor \<^verbatim>\<open>sudoersTeam\<close> is to throw
  ``Multiple sudoer teams are not supported.''. On settings with the two Sudo entries
  11 and 22 the resolver returns the list of 11 alone, and \<^verbatim>\<open>sudoersTeam\<close> returns
  the lazy team 11 and throws nothing.
\<close>

theorem sudoersTeam_two_entries:
  "getSpecialTeam
     (sample_organization [\<lparr>specialTeam = Sudo, teamId = 11\<rparr>, \<lparr>specialTeam = Sudo, teamId = 22\<rparr>] Undefined)
     Sudo ''organization sudoers'' False = Inr [11]
   \<and> sudoersTeam
     (sample_organization [\<lparr>specialTeam = Sudo, teamId = 11\<rparr>, \<lparr>specialTeam = Sudo, teamId = 22\<rparr>] Undefined)
     = Inr (Some (LazyTeam 11))"
  by (simp add: sudoersTeam_def getSpecialTeam_def sample_organization_def
      sample_settings_def constructor_def)

text \<open>
  C4. With several team ids configured for SystemRead, the accessor
  \<^verbatim>\<open>specialRepositoryPermissionTeams\<close> is to return all of them. On settings with
  the two SystemRead entries 31 and 32 its read list holds 31 alone.
\<close>

theorem specialRepositoryPermissionTeams_two_entries:
  "specialRepositoryPermissionTeams
     (sample_organization [\<lparr>specialTeam = SystemRead, teamId = 31\<rparr>, \<lparr>specialTeam = SystemRead, teamId = 32\<rparr>] Undefined)
   = Inr \<lparr>teams_read = [31], teams_write = [], teams_admin = []\<rparr>"
  by (simp add: specialRepositoryPermissionTeams_def getSpecialTeam_def sample_organization_def
      sample_settings_def constructor_def)

section \<open>Sudo determination\<close>

text \<open>
  C7. When the settings configure no Sudo special team, \<^verbatim>\<open>isSudoer\<close> returns false
  for every username and issues no call at all.
\<close>

theorem isSudoer_without_sudo_team:
  assumes "\<forall>entry \<in> set (specialTeams (org_settings org)). specialTeam entry \<noteq> Sudo"
  shows "isSudoer ops org username = (Inr False, [])"
proof -
  have "getSpecialTeam org Sudo ''organization sudoers'' False = Inr []"
    using assms by (rule getSpecialTeam_none_configured)
  then have "sudoersTeam org = Inr None"
    by (simp add: sudoersTeam_def)
  then show ?thesis
    by (simp add: isSudoer_def)
qed

theorem isSudoer_without_sudo_team_witness:
  "specialTeams (org_settings (sample_organization [\<lparr>specialTeam = Everyone, teamId = 3\<rparr>] Undefined))
     = [\<lparr>specialTeam = Everyone, teamId = 3\<rparr>]
   \<and> isSudoer (sample_operations [] None None)
        (sample_organization [\<lparr>specialTeam = Everyone, teamId = 3\<rparr>] Undefined) ''alice''
      = (Inr False, [])"
proof -
  have h: "\<forall>entry \<in> set (specialTeams (org_settings
       (sample_organization [\<lparr>specialTeam = Everyone, teamId = 3\<rparr>] Undefined))). specialTeam entry \<noteq> Sudo"
    by (simp add: sample_organization_def sample_settings_def constructor_def)
  have "specialTeams (org_settings (sample_organization [\<lparr>specialTeam = Everyone, teamId = 3\<rparr>] Undefined))
     = [\<lparr>specialTeam = Everyone, teamId = 3\<rparr>]"
    by (simp add: sample_organization_def sample_settings_def constructor_def)
  then show ?thesis
    using isSudoer_without_sudo_team [OF h, of "sample_operations [] None None" "''alice''"]
    by simp
qed

section \<open>The name/slug resolver\<close>

text \<open>
  The teams that \<^verbatim>\<open>getTeams\<close> returns wrap the raw records of the remote, so each
  has a name and a slug; \<^verbatim>\<open>getTeamFromName\<close> then is the scan over them, started
  without a candidate.
\<close>

lemma createInstances_teams [simp]:
  "createInstances teamFromEntity es = map FullTeam es"
  by (simp add: createInstances_def teamFromEntity_def cong: map_cong)

lemma getTeamFromName_served:
  assumes "collections_getOrgTeams ops (authorize Data) (getTeams_parameters ops org)
             (getTeams_caching ops (slug_lookup_options ops options)) = Inr entities"
  shows "fst (getTeamFromName toLowerCase ops org nameOrSlug options)
           = scan_teams toLowerCase (toLowerCase nameOrSlug) (map FullTeam entities) None"
  using assms
  by (simp add: getTeamFromName_def getTeams_def options_or_empty_def Let_def)

text \<open>Teams that match by neither name nor slug are passed over; only the candidate may change.\<close>

lemma scan_teams_skip:
  assumes "\<forall>b \<in> set before. toLowerCase (entity_name b) \<noteq> expected
             \<and> toLowerCase (entity_slug b) \<noteq> expected"
  shows "\<exists>candidate. scan_teams toLowerCase expected (map FullTeam before @ ts) alt
           = scan_teams toLowerCase expected ts candidate"
  using assms
proof (induction before arbitrary: alt)
  case Nil
  then show ?case by auto
next
  case (Cons b before)
  then show ?case by (auto simp: Let_def)
qed

lemma scan_teams_slug_hit:
  "toLowerCase (entity_slug e) = expected
   \<Longrightarrow> scan_teams toLowerCase expected (FullTeam e # rest) alt = Inr (FullTeam e)"
  by (auto simp: Let_def)

text \<open>
  A team whose lowered name is the lowered input, and whose lowered slug is not, ends
  the scan with the redirect to its slug, whatever the lowering function lowers.
\<close>

lemma scan_teams_name_hit:
  "toLowerCase (entity_name e) = expected \<Longrightarrow> toLowerCase (entity_slug e) \<noteq> expected
   \<Longrightarrow> scan_teams toLowerCase expected (FullTeam e # rest) alt
       = Inl (ErrorObject (redirect_error (toLowerCase (entity_slug e)) (FullTeam e)))"
  by (auto simp: Let_def)

lemma scan_teams_no_match:
  assumes "\<forall>b \<in> set es. toLowerCase (entity_name b) \<noteq> expected
             \<and> toLowerCase (entity_slug b) \<noteq> expected
             \<and> toString (entity_id b) \<noteq> expected"
  shows "scan_teams toLowerCase expected (map FullTeam es) alt = after_scan alt"
  using assms
  by (induction es arbitrary: alt) (auto simp: Let_def)

text \<open>
  With no match by name or slug, and a match by id, the scan ends in the throw of the
  candidate itself: a team whose id prints as the input, and no error object.
\<close>

lemma scan_teams_id_candidate:
  assumes "\<forall>b \<in> set es. toLowerCase (entity_name b) \<noteq> expected
             \<and> toLowerCase (entity_slug b) \<noteq> expected"
    and "\<forall>t. alt = Some t \<longrightarrow> toString (team_id t) = expected"
    and "alt \<noteq> None \<or> (\<exists>b \<in> set es. toString (entity_id b) = expected)"
  shows "\<exists>t. scan_teams toLowerCase expected (map FullTeam es) alt = Inl (ThrownTeam t)
           \<and> toString (team_id t) = expected"
  using assms
proof (induction es arbitrary: alt)
  case Nil
  then show ?case by (auto simp: after_scan_def split: option.splits)
next
  case (Cons b es)
  let ?alt = "if toString (entity_id b) = expected then Some (FullTeam b) else alt"
  have step: "scan_teams toLowerCase expected (map FullTeam (b # es)) alt
                = scan_teams toLowerCase expected (map FullTeam es) ?alt"
    using Cons.prems(1) by (auto simp: Let_def)
  have "\<exists>t. scan_teams toLowerCase expected (map FullTeam es) ?alt = Inl (ThrownTeam t)
           \<and> toString (team_id t) = expected"
  proof (rule Cons.IH)
    show "\<forall>b \<in> set es. toLowerCase (entity_name b) \<noteq> expected
             \<and> toLowerCase (entity_slug b) \<noteq> expected"
      using Cons.prems(1) by simp
    show "\<forall>t. ?alt = Some t \<longrightarrow> toString (team_id t) = expected"
      using Cons.prems(2) by auto
    show "?alt \<noteq> None \<or> (\<exists>b \<in> set es. toString (entity_id b) = expected)"
      using Cons.prems(3) by auto
  qed
  with step show ?case by simp
qed

lemma getTeamFromName_id_fallback_throws_team:
  assumes served: "collections_getOrgTeams ops (authorize Data) (getTeams_parameters ops org)
             (getTeams_caching ops (slug_lookup_options ops options)) = Inr entities"
    and names: "\<forall>b \<in> set entities. toLowerCase (entity_name b) \<noteq> toLowerCase nameOrSlug
             \<and> toLowerCase (entity_slug b) \<noteq> toLowerCase nameOrSlug"
    and byid: "\<exists>b \<in> set entities. toString (entity_id b) = toLowerCase nameOrSlug"
  shows "\<exists>t. fst (getTeamFromName toLowerCase ops org nameOrSlug options) = Inl (ThrownTeam t)
           \<and> toString (team_id t) = toLowerCase nameOrSlug"
proof -
  have "\<exists>t. scan_teams toLowerCase (toLowerCase nameOrSlug) (map FullTeam entities) None = Inl (ThrownTeam t)
           \<and> toString (team_id t) = toLowerCase nameOrSlug"
    using names _ _
  proof (rule scan_teams_id_candidate [where toLowerCase = toLowerCase])
    show "\<forall>t. None = Some t \<longrightarrow> toString (team_id t) = toLowerCase nameOrSlug" by simp
    show "None \<noteq> None \<or> (\<exists>b \<in> set entities. toString (entity_id b) = toLowerCase nameOrSlug)"
      using byid by simp
  qed
  then show ?thesis
    using getTeamFromName_served [OF served] by simp
qed

text \<open>
  C2, as stated: whenever the input equals, case-insensitively, the slug of some team
  of the list, that team is returned and no redirect is signalled. It fails when a team
  earlier in the list has the input as its name and another slug: with the teams
  (core, slug core-team) and (Other, slug core), the input core is the slug of the
  second team, and the result is the redirect to the first.
\<close>

theorem getTeamFromName_earlier_name_counterexample:
  "ascii_toLowerCase (entity_slug \<lparr>entity_id = 2, entity_name = ''Other'', entity_slug = ''core''\<rparr>)
     = ascii_toLowerCase ''core''
   \<and> fst (getTeamFromName ascii_toLowerCase
        (sample_operations
           [\<lparr>entity_id = 1, entity_name = ''core'', entity_slug = ''core-team''\<rparr>,
            \<lparr>entity_id = 2, entity_name = ''Other'', entity_slug = ''core''\<rparr>] None None)
        (sample_organization [] Undefined) ''core'' None)
     = Inl (ErrorObject (redirect_error ''core-team''
              (FullTeam \<lparr>entity_id = 1, entity_name = ''core'', entity_slug = ''core-team''\<rparr>)))
   \<and> status (redirect_error ''core-team''
              (FullTeam \<lparr>entity_id = 1, entity_name = ''core'', entity_slug = ''core-team''\<rparr>))
     = Some 301"
  by code_simp

text \<open>
  C2, amended: when the lower-cased input equals the lower-cased slug of a team, and no
  team before it in the list has a lower-cased name or slug equal to the lower-cased
  input, \<^verbatim>\<open>getTeamFromName\<close> returns that team, whatever follows it in the list and
  whatever ids the earlier teams have. Lower-cased is what the lowering function of
  the runtime returns, for names, slugs and input alike; the statement holds for every
  such function.
\<close>

theorem getTeamFromName_first_slug_match:
  assumes served: "collections_getOrgTeams ops (authorize Data) (getTeams_parameters ops org)
             (getTeams_caching ops (slug_lookup_options ops options)) = Inr (before @ e # rest)"
    and slug: "toLowerCase (entity_slug e) = toLowerCase nameOrSlug"
    and earlier: "\<forall>b \<in> set before. toLowerCase (entity_name b) \<noteq> toLowerCase nameOrSlug
             \<and> toLowerCase (entity_slug b) \<noteq> toLowerCase nameOrSlug"
  shows "fst (getTeamFromName toLowerCase ops org nameOrSlug options) = Inr (teamFromEntity e)"
proof -
  obtain candidate where
    "scan_teams toLowerCase (toLowerCase nameOrSlug) (map FullTeam before @ FullTeam e # map FullTeam rest) None
       = scan_teams toLowerCase (toLowerCase nameOrSlug) (FullTeam e # map FullTeam rest) candidate"
    using scan_teams_skip [where toLowerCase = toLowerCase, OF earlier] by blast
  then have "scan_teams toLowerCase (toLowerCase nameOrSlug) (map FullTeam (before @ e # rest)) None
       = Inr (FullTeam e)"
    using scan_teams_slug_hit [where toLowerCase = toLowerCase, OF slug] by simp
  then show ?thesis
    using getTeamFromName_served [OF served] by (simp add: teamFromEntity_def)
qed

theorem getTeamFromName_first_slug_match_witness:
  "ascii_toLowerCase (entity_slug \<lparr>entity_id = 1, entity_name = ''Core Team'', entity_slug = ''core-team''\<rparr>) = ascii_toLowerCase ''Core-Team''
   \<and> ascii_toLowerCase ''Docs'' \<noteq> ascii_toLowerCase ''Core-Team''
   \<and> ascii_toLowerCase ''docs'' \<noteq> ascii_toLowerCase ''Core-Team''
   \<and> fst (getTeamFromName ascii_toLowerCase
        (sample_operations
           ([\<lparr>entity_id = 3, entity_name = ''Docs'', entity_slug = ''docs''\<rparr>]
            @ \<lparr>entity_id = 1, entity_name = ''Core Team'', entity_slug = ''core-team''\<rparr>
            # [\<lparr>entity_id = 2, entity_name = ''core team'', entity_slug = ''core-team-2''\<rparr>])
           None None)
        (sample_organization [] Undefined) ''Core-Team'' None)
     = Inr (teamFromEntity \<lparr>entity_id = 1, entity_name = ''Core Team'', entity_slug = ''core-team''\<rparr>)"
proof -
  let ?before = "[\<lparr>entity_id = 3, entity_name = ''Docs'', entity_slug = ''docs''\<rparr>]"
  let ?e = "\<lparr>entity_id = 1, entity_name = ''Core Team'', entity_slug = ''core-team''\<rparr>"
  let ?rest = "[\<lparr>entity_id = 2, entity_name = ''core team'', entity_slug = ''core-team-2''\<rparr>]"
  let ?ops = "sample_operations (?before @ ?e # ?rest) None None"
  have served: "collections_getOrgTeams ?ops (authorize Data)
       (getTeams_parameters ?ops (sample_organization [] Undefined))
       (getTeams_caching ?ops (slug_lookup_options ?ops None)) = Inr (?before @ ?e # ?rest)"
    by (simp add: sample_operations_def)
  have slug: "ascii_toLowerCase (entity_slug ?e) = ascii_toLowerCase ''Core-Team''"
    by code_simp
  have earlier: "\<forall>b \<in> set ?before. ascii_toLowerCase (entity_name b) \<noteq> ascii_toLowerCase ''Core-Team''
             \<and> ascii_toLowerCase (entity_slug b) \<noteq> ascii_toLowerCase ''Core-Team''"
    by code_simp
  show ?thesis
    using slug earlier getTeamFromName_first_slug_match [OF served slug earlier] by simp
qed

text \<open>
  C3. With no match by name or slug and a team whose id equals the input, the resolver
  is to fail with the redirect signal: an error with status 301, the slug and the team.
  For the team list of the one team (id 7, X, slug x) and the input 7, what is thrown is
  the team object itself; it has no status.
\<close>

theorem getTeamFromName_id_only:
  "getTeamFromName ascii_toLowerCase
     (sample_operations [\<lparr>entity_id = 7, entity_name = ''X'', entity_slug = ''x''\<rparr>] None None)
     (sample_organization [] Undefined) ''7'' None
   = (Inl (ThrownTeam (FullTeam \<lparr>entity_id = 7, entity_name = ''X'', entity_slug = ''x''\<rparr>)),
      [GetOrgTeams (Authorize Data) [(''org'', JsString ''contoso''), (''per_page'', JsNumber 100)]
         \<lparr>maxAgeSeconds = Defined 30, backgroundRefresh = Undefined, pageRequestDelay = Null\<rparr>])
   \<and> thrown_status (ThrownTeam (FullTeam \<lparr>entity_id = 7, entity_name = ''X'', entity_slug = ''x''\<rparr>))
     = None"
  by code_simp

text \<open>
  C8. When no team matches the input by name, by slug or by id, \<^verbatim>\<open>getTeamFromName\<close>
  fails with the error whose status is 404 and whose \<^verbatim>\<open>skipLog\<close> flag is set. A
  match is what the code tests: the lowered name or slug equals the lowered input, or
  the printed id equals it; the lowering is any function, so a name with capitals
  outside ASCII that the runtime lowers onto the input is a match here as well.
\<close>

theorem getTeamFromName_not_found:
  assumes served: "collections_getOrgTeams ops (authorize Data) (getTeams_parameters ops org)
             (getTeams_caching ops (slug_lookup_options ops options)) = Inr entities"
    and unmatched: "\<forall>b \<in> set entities. toLowerCase (entity_name b) \<noteq> toLowerCase nameOrSlug
             \<and> toLowerCase (entity_slug b) \<noteq> toLowerCase nameOrSlug
             \<and> toString (entity_id b) \<noteq> toLowerCase nameOrSlug"
  shows "\<exists>err. fst (getTeamFromName toLowerCase ops org nameOrSlug options) = Inl (ErrorObject err)
           \<and> status err = Some 404 \<and> skipLog err = Some True"
proof -
  have "scan_teams toLowerCase (toLowerCase nameOrSlug) (map FullTeam entities) None = after_scan None"
    using unmatched by (rule scan_teams_no_match [where toLowerCase = toLowerCase])
  then have "fst (getTeamFromName toLowerCase ops org nameOrSlug options) = Inl (ErrorObject teamNotFoundError)"
    using getTeamFromName_served [OF served] by (simp add: after_scan_def)
  moreover have "status teamNotFoundError = Some 404 \<and> skipLog teamNotFoundError = Some True"
    by (simp add: teamNotFoundError_def new_Error_def)
  ultimately show ?thesis by blast
qed

theorem getTeamFromName_not_found_witness:
  "ascii_toLowerCase ''X'' \<noteq> ascii_toLowerCase ''nonexistent''
   \<and> ascii_toLowerCase ''x'' \<noteq> ascii_toLowerCase ''nonexistent''
   \<and> toString 1 \<noteq> ascii_toLowerCase ''nonexistent''
   \<and> (\<exists>err. fst (getTeamFromName ascii_toLowerCase
                    (sample_operations [\<lparr>entity_id = 1, entity_name = ''X'', entity_slug = ''x''\<rparr>] None None)
                    (sample_organization [] Undefined) ''nonexistent'' None)
                = Inl (ErrorObject err)
              \<and> status err = Some 404 \<and> skipLog err = Some True)"
proof -
  let ?ops = "sample_operations [\<lparr>entity_id = 1, entity_name = ''X'', entity_slug = ''x''\<rparr>] None None"
  have served: "collections_getOrgTeams ?ops (authorize Data)
       (getTeams_parameters ?ops (sample_organization [] Undefined))
       (getTeams_caching ?ops (slug_lookup_options ?ops None))
     = Inr [\<lparr>entity_id = 1, entity_name = ''X'', entity_slug = ''x''\<rparr>]"
    by (simp add: sample_operations_def)
  have unmatched: "\<forall>b \<in> set [\<lparr>entity_id = 1, entity_name = ''X'', entity_slug = ''x''\<rparr>].
          ascii_toLowerCase (entity_name b) \<noteq> ascii_toLowerCase ''nonexistent''
          \<and> ascii_toLowerCase (entity_slug b) \<noteq> ascii_toLowerCase ''nonexistent''
          \<and> toString (entity_id b) \<noteq> ascii_toLowerCase ''nonexistent''"
    by code_simp
  show ?thesis
    using unmatched getTeamFromName_not_found [OF served unmatched] by simp
qed

section \<open>Credentials of the remote calls\<close>

text \<open>
  C5, as stated: every remote call binds the supplier of a purpose, and
  \<^verbatim>\<open>acceptOrganizationInvitation\<close> binds the one of the Operations purpose. The
  method passes the header string made of the user's own token instead.
\<close>

theorem acceptOrganizationInvitation_credential_counterexample:
  "credentials_used (snd (acceptOrganizationInvitation (sample_operations [] None None)
      (sample_organization [] Undefined) ''usertoken''))
     = [HeaderString ''token usertoken'']
   \<and> credentials_used (snd (acceptOrganizationInvitation (sample_operations [] None None)
      (sample_organization [] Undefined) ''usertoken''))
     \<noteq> [authorize Operations]"
  by (simp add: acceptOrganizationInvitation_def credentials_used_def
      authorize_def Let_def)

lemma removeMember_try_credentials:
  "credentials_used (snd (removeMember_try ops org login optionalId)) = [authorize Operations]"
  by (auto simp: removeMember_try_def removeMember_cache_try_def catch_ignored_def
      credentials_used_def Let_def
      split: sum.splits option.splits optional.splits prod.splits)

lemma removeMember_credentials:
  "credentials_used (snd (removeMember ops org login optionalId)) = [authorize Operations]"
  using removeMember_try_credentials [of ops org login optionalId]
  by (auto simp: removeMember_def split: prod.splits sum.splits)

text \<open>
  C5, amended: \<^verbatim>\<open>createRepository\<close>, \<^verbatim>\<open>addMembership\<close> and \<^verbatim>\<open>removeMember\<close>
  bind the Operations purpose; the listings \<^verbatim>\<open>getMembers\<close>, \<^verbatim>\<open>getTeams\<close> and
  \<^verbatim>\<open>getRepositories\<close> bind the Data purpose; \<^verbatim>\<open>checkPublicMembership\<close> binds the
  CustomerFacing purpose; \<^verbatim>\<open>acceptOrganizationInvitation\<close> declares no purpose and
  passes the header \<^verbatim>\<open>token\<close> followed by the user token it was given.
\<close>

theorem remote_call_credentials:
  "credentials_used (snd (createRepository ops org repositoryName repositoryOptions))
     = [authorize Operations]
   \<and> credentials_used (snd (addMembership ops org username membershipOptions))
     = [authorize Operations]
   \<and> credentials_used (snd (removeMember ops org login optionalId)) = [authorize Operations]
   \<and> credentials_used (snd (getMembers ops org membersOptions)) = [authorize Data]
   \<and> credentials_used (snd (getTeams ops org options)) = [authorize Data]
   \<and> credentials_used (snd (getRepositories ops org options)) = [authorize Data]
   \<and> credentials_used (snd (checkPublicMembership ops org username)) = [authorize CustomerFacing]
   \<and> credentials_used (snd (acceptOrganizationInvitation ops org userToken))
     = [HeaderString (''token '' @ userToken)]"
proof -
  have "credentials_used (snd (createRepository ops org repositoryName repositoryOptions))
     = [authorize Operations]"
    by (simp add: createRepository_def credentials_used_def Let_def)
  moreover have "credentials_used (snd (addMembership ops org username membershipOptions))
     = [authorize Operations]"
    by (simp add: addMembership_def credentials_used_def Let_def)
  moreover have "credentials_used (snd (getMembers ops org membersOptions)) = [authorize Data]"
    by (simp add: getMembers_def credentials_used_def Let_def)
  moreover have "credentials_used (snd (getTeams ops org options)) = [authorize Data]"
    by (simp add: getTeams_def credentials_used_def Let_def)
  moreover have "credentials_used (snd (getRepositories ops org options)) = [authorize Data]"
    by (simp add: getRepositories_def credentials_used_def Let_def)
  moreover have "credentials_used (snd (checkPublicMembership ops org username))
     = [authorize CustomerFacing]"
    by (simp add: checkPublicMembership_def credentials_used_def Let_def)
  moreover have "credentials_used (snd (acceptOrganizationInvitation ops org userToken))
     = [HeaderString (''token '' @ userToken)]"
    by (simp add: acceptOrganizationInvitation_def credentials_used_def Let_def)
  ultimately show ?thesis
    using removeMember_credentials [of ops org login optionalId] by simp
qed

theorem remote_call_credentials_witness:
  "credentials_used (snd (createRepository (sample_operations [] None None)
      (sample_organization [] Undefined) ''portal'' [(''private'', JsBool True)]))
     = [Authorize Operations]
   \<and> credentials_used (snd (removeMember (sample_operations [] None (Some failing_cache))
      (sample_organization [] (Defined 5)) ''alice'' (Defined ''42'')))
     = [Authorize Operations]
   \<and> credentials_used (snd (getTeams (sample_operations [] None None)
      (sample_organization [] Undefined) None))
     = [Authorize Data]
   \<and> credentials_used (snd (checkPublicMembership (sample_operations [] None None)
      (sample_organization [] Undefined) ''alice''))
     = [Authorize CustomerFacing]
   \<and> credentials_used (snd (acceptOrganizationInvitation (sample_operations [] None None)
      (sample_organization [] Undefined) ''usertoken''))
     = [HeaderString ''token usertoken'']"
  using remote_call_credentials [of "sample_operations [] None None"
      "sample_organization [] Undefined" "''portal''" "[(''private'', JsBool True)]"
      "''alice''" None "''alice''" Undefined None None "''usertoken''"]
    remote_call_credentials [of "sample_operations [] None (Some failing_cache)"
      "sample_organization [] (Defined 5)" "''portal''" "[]"
      "''alice''" None "''alice''" "Defined ''42''" None None "''usertoken''"]
  by (simp add: authorize_def)

section \<open>Name and id of the organization object\<close>

text \<open>
  C6, as stated: the id, once set, is never assigned again. An organization built with
  the configured id 5 has the id 9 after a \<^verbatim>\<open>getDetails\<close> whose entity has id 9.
\<close>

theorem getDetails_reassigns_id_counterexample:
  "org_id (sample_organization [] (Defined 5)) = Some 5
   \<and> org_id (snd (getDetails
        (sample_operations [] (Some \<lparr>ent_id = Defined 9, ent_name = Undefined, ent_login = Undefined\<rparr>) None)
        (sample_organization [] (Defined 5)))) = Some 9"
  by (simp add: getDetails_def sample_operations_def sample_organization_def sample_settings_def
      constructor_def Let_def)

lemma getDetails_name: "org_name (snd (getDetails ops org)) = org_name org"
  by (simp add: getDetails_def Let_def split: sum.splits option.splits optional.splits)

lemma perform_name: "org_name (snd (perform toLowerCase ops org r)) = org_name org"
  by (cases r) (simp_all add: getDetails_name)

lemma run_name: "org_name (run toLowerCase org steps) = org_name org"
  by (induction steps arbitrary: org) (simp_all add: perform_name)

lemma perform_other_id: "r \<noteq> GetDetails \<Longrightarrow> org_id (snd (perform toLowerCase ops org r)) = org_id org"
  by (cases r) simp_all

text \<open>
  C6, amended: the name is the same after every run of requests; a request other than
  \<^verbatim>\<open>getDetails\<close> leaves the id as it is; a \<^verbatim>\<open>getDetails\<close> whose remote call returns
  an entity with a truthy id stores that id, whether or not an id was set before, and
  any other \<^verbatim>\<open>getDetails\<close> leaves the id as it is.
\<close>

theorem name_fixed_id_follows_getDetails:
  "org_name (run toLowerCase org steps) = org_name org
   \<and> (r \<noteq> GetDetails \<longrightarrow> org_id (snd (perform toLowerCase ops org r)) = org_id org)
   \<and> (github_call ops (authorize Data) ''orgs.get'' [(''org'', JsString (org_name org))]
         = Inr (Some e) \<and> ent_id e = Defined i \<and> i \<noteq> 0
       \<longrightarrow> org_id (snd (perform toLowerCase ops org GetDetails)) = Some i)
   \<and> (\<not> (\<exists>e i. github_call ops (authorize Data) ''orgs.get'' [(''org'', JsString (org_name org))]
                  = Inr (Some e) \<and> ent_id e = Defined i \<and> i \<noteq> 0)
       \<longrightarrow> org_id (snd (perform toLowerCase ops org GetDetails)) = org_id org)"
proof -
  have "github_call ops (authorize Data) ''orgs.get'' [(''org'', JsString (org_name org))]
         = Inr (Some e) \<and> ent_id e = Defined i \<and> i \<noteq> 0
       \<longrightarrow> org_id (snd (perform toLowerCase ops org GetDetails)) = Some i"
    by (simp add: getDetails_def Let_def)
  moreover have "\<not> (\<exists>e i. github_call ops (authorize Data) ''orgs.get'' [(''org'', JsString (org_name org))]
                  = Inr (Some e) \<and> ent_id e = Defined i \<and> i \<noteq> 0)
       \<longrightarrow> org_id (snd (perform toLowerCase ops org GetDetails)) = org_id org"
    by (auto simp: getDetails_def Let_def split: sum.splits option.splits optional.splits)
  ultimately show ?thesis
    using run_name [of toLowerCase org steps] perform_other_id [of r toLowerCase ops org] by blast
qed

theorem name_fixed_id_follows_getDetails_witness:
  "org_name (run ascii_toLowerCase (sample_organization [] (Defined 5))
      [(sample_operations [] (Some \<lparr>ent_id = Defined 9, ent_name = Undefined, ent_login = Undefined\<rparr>) None,
        GetDetails),
       (sample_operations [] None None, IsSudoer ''alice'')])
     = ''contoso''
   \<and> org_id (snd (perform ascii_toLowerCase (sample_operations [] None None) (sample_organization [] (Defined 5))
        (IsSudoer ''alice''))) = Some 5
   \<and> org_id (snd (perform ascii_toLowerCase
        (sample_operations [] (Some \<lparr>ent_id = Defined 9, ent_name = Undefined, ent_login = Undefined\<rparr>) None)
        (sample_organization [] (Defined 5)) GetDetails)) = Some 9
   \<and> org_id (snd (perform ascii_toLowerCase (sample_operations [] None None) (sample_organization [] (Defined 5))
        GetDetails)) = Some 5"
proof -
  let ?e = "\<lparr>ent_id = Defined 9, ent_name = Undefined, ent_login = Undefined\<rparr>"
  let ?org = "sample_organization [] (Defined 5)"
  have org: "org_name ?org = ''contoso''" "org_id ?org = Some 5"
    by (simp_all add: sample_organization_def sample_settings_def constructor_def)
  have served: "github_call (sample_operations [] (Some ?e) None) (authorize Data) ''orgs.get''
                  [(''org'', JsString (org_name ?org))] = Inr (Some ?e)"
    by (simp add: sample_operations_def)
  have absent: "\<not> (\<exists>e i. github_call (sample_operations [] None None) (authorize Data) ''orgs.get''
                  [(''org'', JsString (org_name ?org))] = Inr (Some e) \<and> ent_id e = Defined i \<and> i \<noteq> 0)"
    by (simp add: sample_operations_def)
  show ?thesis
    using org served absent
      name_fixed_id_follows_getDetails [of ascii_toLowerCase ?org
        "[(sample_operations [] (Some ?e) None, GetDetails),
          (sample_operations [] None None, IsSudoer ''alice'')]"
        "IsSudoer ''alice''" "sample_operations [] (Some ?e) None" ?e 9]
      name_fixed_id_follows_getDetails [of ascii_toLowerCase ?org "[]"
        "IsSudoer ''alice''" "sample_operations [] None None" ?e 9]
    by simp
qed

section \<open>Removal of a member and the secondary cache\<close>

text \<open>
  C9. When the remote removal of the membership succeeds, \<^verbatim>\<open>removeMember\<close> returns
  normally, whatever the account lookup and the query cache do: a fault of either is
  caught and dropped.
\<close>

theorem removeMember_cache_failure_swallowed:
  assumes "github_post ops (authorize Operations) ''orgs.removeMembership''
             [(''org'', JsString (org_name org)), (''username'', JsString login)] = Inr ok"
  shows "fst (removeMember ops org login optionalId) = Inr ()"
  using assms
  by (simp add: removeMember_def removeMember_try_def catch_ignored_def Let_def
      split: option.splits sum.splits prod.splits)

theorem removeMember_cache_failure_swallowed_witness:
  "github_post (sample_operations [] None (Some failing_cache)) (authorize Operations)
     ''orgs.removeMembership''
     [(''org'', JsString (org_name (sample_organization [] (Defined 5)))),
      (''username'', JsString ''alice'')] = Inr None
   \<and> removeMember_cache_try (sample_operations [] None (Some failing_cache))
        (sample_organization [] (Defined 5)) failing_cache ''alice'' (Defined ''42'')
      = (Inl (ErrorObject (new_Error ''cache unavailable'')),
         [RemoveOrganizationMember ''5'' ''42''])
   \<and> fst (removeMember (sample_operations [] None (Some failing_cache))
        (sample_organization [] (Defined 5)) ''alice'' (Defined ''42'')) = Inr ()
   \<and> fst (removeMember (sample_operations [] None (Some failing_cache))
        (sample_organization [] (Defined 5)) ''alice'' Undefined) = Inr ()"
proof -
  let ?ops = "sample_operations [] None (Some failing_cache)"
  let ?org = "sample_organization [] (Defined 5)"
  have primary: "github_post ?ops (authorize Operations) ''orgs.removeMembership''
     [(''org'', JsString (org_name ?org)), (''username'', JsString ''alice'')] = Inr None"
    by (simp add: sample_operations_def)
  have cache: "removeMember_cache_try ?ops ?org failing_cache ''alice'' (Defined ''42'')
      = (Inl (ErrorObject (new_Error ''cache unavailable'')),
         [RemoveOrganizationMember ''5'' ''42''])"
    by code_simp
  show ?thesis
    using primary cache
      removeMember_cache_failure_swallowed [OF primary, of "Defined ''42''"]
      removeMember_cache_failure_swallowed [OF primary, of Undefined]
    by simp
qed

section \<open>Background refresh of the listings\<close>

text \<open>
  C10. When the options of \<^verbatim>\<open>getTeams\<close> omit \<^verbatim>\<open>backgroundRefresh\<close>, the policy
  handed to the collection fetcher carries it undefined, since the option is copied as
  it is; \<^verbatim>\<open>getMembers\<close> and \<^verbatim>\<open>getRepositories\<close> hand over true unless the option is
  exactly false. So the three listings do not share one rule.
\<close>

theorem listing_backgroundRefresh:
  assumes "backgroundRefresh (options_or_empty options) = Undefined"
  shows "map backgroundRefresh (policies_handed (snd (getTeams ops org options))) = [Undefined]
   \<and> map backgroundRefresh (policies_handed (snd (getTeams ops org teamsOptions)))
       = [backgroundRefresh (options_or_empty teamsOptions)]
   \<and> map backgroundRefresh (policies_handed (snd (getMembers ops org membersOptions)))
       = [if backgroundRefresh (members_options_or_empty membersOptions) = Defined False
          then Defined False else Defined True]
   \<and> map backgroundRefresh (policies_handed (snd (getRepositories ops org repositoriesOptions)))
       = [if backgroundRefresh (options_or_empty repositoriesOptions) = Defined False
          then Defined False else Defined True]"
  using assms
  by (simp add: getTeams_def getTeams_caching_def getMembers_def getMembers_caching_def
      getRepositories_def getRepositories_caching_def policies_handed_def Let_def)

theorem listing_backgroundRefresh_witness:
  "backgroundRefresh (options_or_empty None) = Undefined
   \<and> map backgroundRefresh (policies_handed (snd (getTeams (sample_operations [] None None)
        (sample_organization [] Undefined) None))) = [Undefined]
   \<and> map backgroundRefresh (policies_handed (snd (getMembers (sample_operations [] None None)
        (sample_organization [] Undefined) None))) = [Defined True]
   \<and> map backgroundRefresh (policies_handed (snd (getRepositories (sample_operations [] None None)
        (sample_organization [] Undefined) None))) = [Defined True]"
proof -
  have omitted: "backgroundRefresh (options_or_empty None) = Undefined"
    by (simp add: options_or_empty_def empty_options_def)
  have members: "backgroundRefresh (members_options_or_empty None) = Undefined"
    by (simp add: members_options_or_empty_def empty_members_options_def)
  show ?thesis
    using omitted members
      listing_backgroundRefresh [OF omitted, of "sample_operations [] None None"
        "sample_organization [] Undefined" None None None]
    by simp
qed

end
